theory Spec2Isabelle
  imports Complex_Main "HOL-Library.AList" "HOL-Library.Sublist"
begin

section \<open>Exceptions (providers/exceptions.py)\<close>

text \<open>
  The classes of the exceptions that occur in the provider layer. The three provider
  classes are those of \<^verbatim>\<open>exceptions.py\<close>; \<open>Subclass n b\<close> is a class named
  \<open>n\<close> declared with the single base \<open>b\<close> (a provider implementation may add its
  own specialisations); \<open>OtherError n\<close> is any class unrelated to the provider family.
\<close>

datatype exc_class =
    RuntimeError
  | ValueError
  | ProviderError
  | ProviderRateLimitError
  | ProviderAuthError
  | Subclass string exc_class
  | OtherError string

text \<open>
  A message is kept as the parts of the f-string that builds it, with the values already
  substituted: literal text, a formatted \<^verbatim>\<open>str\<close> and a formatted list of \<^verbatim>\<open>str\<close>.
\<close>

datatype fstr_part =
    Lit string
  | Fmt string
  | FmtList "string list"

datatype exception = Exception (exc_class_of: exc_class) (args: "fstr_part list")

text \<open>The linearised bases of a class, the class itself first.\<close>

fun mro :: "exc_class \<Rightarrow> exc_class list" where
  "mro ProviderError = [ProviderError, RuntimeError]"
| "mro ProviderRateLimitError = [ProviderRateLimitError, ProviderError, RuntimeError]"
| "mro ProviderAuthError = [ProviderAuthError, ProviderError, RuntimeError]"
| "mro (Subclass n b) = Subclass n b # mro b"
| "mro c = [c]"

definition isinstance :: "exception \<Rightarrow> exc_class \<Rightarrow> bool" where
  "isinstance e c = (c \<in> set (mro (exc_class_of e)))"

section \<open>Retry decorators (providers/retry_utils.py)\<close>

subsection \<open>The retrying call of the tenacity library\<close>

text \<open>
  An operation runs on a state \<open>'s\<close> (everything the wrapped callable reads and
  changes) and either raises (\<open>Inl\<close>) or returns (\<open>Inr\<close>).
\<close>

type_synonym ('s, 'a) operation = "'s \<Rightarrow> (exception + 'a) \<times> 's"

text \<open>
  What the caller of a wrapped operation sees: the value, the exception of an attempt
  raised again, or tenacity's own \<^verbatim>\<open>RetryError\<close> around a last attempt that returned.
\<close>

datatype 'a retry_outcome =
    Returns 'a
  | Raises exception
  | RaisesRetryError 'a

text \<open>
  The result of a wrapped call: the outcome, the state left by the last attempt, and two
  observations of the run, the outcome of every attempt in order (one entry per invocation
  of the operation) and the waits slept between attempts, in seconds.
\<close>

record ('s, 'a) retried =
  outcome :: "'a retry_outcome"
  world :: 's
  history :: "(exception + 'a) list"
  slept :: "nat list"

definition retry_if_exception_type :: "exc_class \<Rightarrow> exception + 'a \<Rightarrow> bool" where
  "retry_if_exception_type c fut = (case fut of Inl e \<Rightarrow> isinstance e c | Inr v \<Rightarrow> False)"

definition retry_if_result :: "('a \<Rightarrow> bool) \<Rightarrow> exception + 'a \<Rightarrow> bool" where
  "retry_if_result predicate fut = (case fut of Inl e \<Rightarrow> False | Inr v \<Rightarrow> predicate v)"

definition stop_after_attempt :: "int \<Rightarrow> int \<Rightarrow> bool" where
  "stop_after_attempt max_attempt_number attempt_number = (attempt_number \<ge> max_attempt_number)"

definition wait_fixed :: "nat \<Rightarrow> int \<Rightarrow> nat" where
  "wait_fixed wait attempt_number = wait"

text \<open>
  \<^verbatim>\<open>retry(retry=r, stop=stop_after_attempt(n), wait=wait_fixed(w), reraise=True)\<close>
  applied to \<open>fn\<close>, as the library runs it: attempt; when the retry condition does not
  hold, hand the attempt's outcome to the caller; when it holds and the stop condition
  holds too, raise (with \<^verbatim>\<open>reraise=True\<close> the last attempt's exception when it
  raised, \<^verbatim>\<open>RetryError\<close> when it returned); otherwise sleep and attempt again with
  the attempt number increased. The attempt number starts at 1 and the stop condition is
  looked at only after an attempt, so there is always at least one attempt. The waits are
  whole non-negative seconds. An operation that raises the library's own
  \<^verbatim>\<open>TryAgain\<close> to ask for another attempt is outside the model.
\<close>

function retry_loop ::
  "(exception + 'a \<Rightarrow> bool) \<Rightarrow> int \<Rightarrow> nat \<Rightarrow> ('s, 'a) operation \<Rightarrow>
   int \<Rightarrow> 's \<Rightarrow> (exception + 'a) list \<Rightarrow> nat list \<Rightarrow> ('s, 'a) retried" where
  "retry_loop retry_cond max_attempts wait_seconds fn attempt_number s hist sleeps =
     (case fn s of (fut, s') \<Rightarrow>
        if \<not> retry_cond fut then
          \<lparr>outcome = (case fut of Inl e \<Rightarrow> Raises e | Inr v \<Rightarrow> Returns v),
           world = s', history = hist @ [fut], slept = sleeps\<rparr>
        else if stop_after_attempt max_attempts attempt_number then
          \<lparr>outcome = (case fut of Inl e \<Rightarrow> Raises e | Inr v \<Rightarrow> RaisesRetryError v),
           world = s', history = hist @ [fut], slept = sleeps\<rparr>
        else
          retry_loop retry_cond max_attempts wait_seconds fn (attempt_number + 1) s'
            (hist @ [fut]) (sleeps @ [wait_fixed wait_seconds attempt_number]))"
  by pat_completeness auto
termination
  by (relation "measure (\<lambda>(r, n, w, fn, k, s, h, sl). nat (n - k))")
     (auto simp: stop_after_attempt_def)

definition retry ::
  "(exception + 'a \<Rightarrow> bool) \<Rightarrow> int \<Rightarrow> nat \<Rightarrow> ('s, 'a) operation \<Rightarrow> 's \<Rightarrow> ('s, 'a) retried" where
  "retry retry_cond max_attempts wait_seconds fn s =
     retry_loop retry_cond max_attempts wait_seconds fn 1 s [] []"

subsection \<open>The two decorators\<close>

definition rate_limit_retry ::
  "int \<Rightarrow> nat \<Rightarrow> ('s, 'a) operation \<Rightarrow> 's \<Rightarrow> ('s, 'a) retried" where
  "rate_limit_retry max_attempts wait_seconds =
     retry (retry_if_exception_type ProviderRateLimitError) max_attempts wait_seconds"

definition llm_retry_decorator ::
  "('a \<Rightarrow> bool) \<Rightarrow> int \<Rightarrow> nat \<Rightarrow> ('s, 'a) operation \<Rightarrow> 's \<Rightarrow> ('s, 'a) retried" where
  "llm_retry_decorator predicate max_attempts wait_seconds =
     retry (retry_if_result predicate) max_attempts wait_seconds"

section \<open>Data classes (providers/data_class.py)\<close>

datatype role = System | User | Assistant

record Message =
  role :: role
  content :: string

record Messages =
  messages :: "Message list"

text \<open>
  A Python \<^verbatim>\<open>float\<close> is modelled by the real number it denotes (the comparisons of
  the bounds are then exact, and \<open>0.7\<close> stands for the float of that literal); the
  non-finite floats are outside the model, and so is the conversion of an argument of
  another type. A field is
  \<^verbatim>\<open>None\<close> or a value; the extension fields are kept as the dictionary of the
  keyword arguments that are not recognised options.
\<close>

record 'v GenerateParameters =
  temperature :: "real option"
  top_p :: "real option"
  max_tokens :: "int option"
  model_extra :: "(string \<times> 'v) list"

text \<open>A keyword argument of the constructor: left out, \<^verbatim>\<open>None\<close>, or a value.\<close>

datatype 'a supplied = Omitted | PyNone | Value 'a

text \<open>The validation error names the fields whose constraint failed, in field order.\<close>

datatype validation_error = ValidationError "string list"

text \<open>
  One annotated field \<^verbatim>\<open>T | None = Field(default=d, ...)\<close>: the default is taken as
  it is, \<^verbatim>\<open>None\<close> is accepted, a value must satisfy the constraints. The result is
  \<open>None\<close> when the field is rejected.
\<close>

definition field ::
  "'a option \<Rightarrow> ('a \<Rightarrow> bool) \<Rightarrow> 'a supplied \<Rightarrow> 'a option option" where
  "field dflt constraints arg =
     (case arg of
        Omitted \<Rightarrow> Some dflt
      | PyNone \<Rightarrow> Some None
      | Value v \<Rightarrow> if constraints v then Some (Some v) else None)"

definition temperature_field :: "real supplied \<Rightarrow> real option option" where
  "temperature_field = field (Some 0.7) (\<lambda>v. v \<ge> 0.0 \<and> v \<le> 2.0)"

definition top_p_field :: "real supplied \<Rightarrow> real option option" where
  "top_p_field = field (Some 1.0) (\<lambda>v. v \<ge> 0.0 \<and> v \<le> 1.0)"

definition max_tokens_field :: "int supplied \<Rightarrow> int option option" where
  "max_tokens_field = field None (\<lambda>v. v > 256 \<and> v \<le> 16384)"

definition GenerateParameters_init ::
  "real supplied \<Rightarrow> real supplied \<Rightarrow> int supplied \<Rightarrow> (string \<times> 'v) list \<Rightarrow>
   validation_error + 'v GenerateParameters" where
  "GenerateParameters_init temperature_arg top_p_arg max_tokens_arg extra =
     (case (temperature_field temperature_arg, top_p_field top_p_arg,
            max_tokens_field max_tokens_arg) of
        (Some t, Some p, Some m) \<Rightarrow>
          Inr \<lparr>temperature = t, top_p = p, max_tokens = m, model_extra = extra\<rparr>
      | (t, p, m) \<Rightarrow>
          Inl (ValidationError
                ((if t = None then [''temperature''] else []) @
                 (if p = None then [''top_p''] else []) @
                 (if m = None then [''max_tokens''] else []))))"

section \<open>Clients, registry and factory (providers/base.py)\<close>

subsection \<open>The abstract client\<close>

text \<open>
  A concrete client class, as far as the registry and the factory use it: its
  \<^verbatim>\<open>__name__\<close>, its \<^verbatim>\<open>provider\<close> class attribute (\<open>None\<close> when the class does not
  define one) and its \<^verbatim>\<open>_create_client\<close>, which reads the model name stored on the
  instance and returns the SDK object of type \<open>'c\<close> or raises. A registered class is
  taken to implement the abstract methods and to inherit \<^verbatim>\<open>__init__\<close>.
\<close>

record 'c client_type =
  cname :: string
  provider :: "string option"
  create_client :: "string \<Rightarrow> exception + 'c"

text \<open>An instance: the stored model name, the SDK object and the class it was made from.\<close>

record 'c llm_client =
  model :: string
  client :: 'c
  class_of :: "'c client_type"

text \<open>\<^verbatim>\<open>cls(model=model_name)\<close>, that is \<^verbatim>\<open>AbstractLLMClient.__init__\<close>.\<close>

definition init :: "'c client_type \<Rightarrow> string \<Rightarrow> exception + 'c llm_client" where
  "init cls model_name =
     (case create_client cls model_name of
        Inl e \<Rightarrow> Inl e
      | Inr sdk \<Rightarrow> Inr \<lparr>model = model_name, client = sdk, class_of = cls\<rparr>)"

text \<open>
  \<^verbatim>\<open>call_with_retry\<close> is \<^verbatim>\<open>rate_limit_retry(max_attempts=3, wait_seconds=1)\<close> around a
  body that calls \<^verbatim>\<open>self.generate(messages=messages, params=params)\<close>; the first
  argument stands for the bound method \<^verbatim>\<open>self.generate\<close> of the concrete class.
\<close>

definition call_with_retry ::
  "(Messages \<Rightarrow> 'v GenerateParameters \<Rightarrow> ('s, string) operation) \<Rightarrow>
   Messages \<Rightarrow> 'v GenerateParameters \<Rightarrow> 's \<Rightarrow> ('s, string) retried" where
  "call_with_retry generate msgs params =
     rate_limit_retry 3 1 (\<lambda>s. generate msgs params s)"

subsection \<open>Registry and factory\<close>

text \<open>
  The state of the process: the module-level dictionary \<^verbatim>\<open>_REGISTRY\<close>, in insertion
  order, and as an observation the constructor calls made so far (class name and model
  name of each).
\<close>

record 'c process =
  REGISTRY :: "(string \<times> 'c client_type) list"
  instantiations :: "(string \<times> string) list"

definition register_provider ::
  "'c client_type \<Rightarrow> 'c process \<Rightarrow> (exception + 'c client_type) \<times> 'c process" where
  "register_provider cls p =
     (case provider cls of
        None \<Rightarrow>
          (Inl (Exception ValueError
                 [Lit ''Provider client must define 'provider' class attr'']), p)
      | Some key \<Rightarrow>
          if key = [] then
            (Inl (Exception ValueError
                   [Lit ''Provider client must define 'provider' class attr'']), p)
          else
            (case map_of (REGISTRY p) key of
               Some occupant \<Rightarrow>
                 (Inl (Exception ValueError
                        [Lit (''Provider '' @ [CHR 0x27]), Fmt key,
                         Lit ''' already registered by '', Fmt (cname occupant)]), p)
             | None \<Rightarrow>
                 (Inr cls, p\<lparr>REGISTRY := AList.update key cls (REGISTRY p)\<rparr>)))"

text \<open>
  \<^verbatim>\<open>s.split(':', 1)\<close>: one piece without a colon, else the two around the first. A
  string is its UTF-8 bytes; the colon is one byte and part of no other character, so the
  bytes split where the text does.
\<close>

definition split_colon_1 :: "string \<Rightarrow> string list" where
  "split_colon_1 s =
     (if CHR '':'' \<in> set s
      then [takeWhile (\<lambda>c. c \<noteq> CHR '':'') s, tl (dropWhile (\<lambda>c. c \<noteq> CHR '':'') s)]
      else [s])"

definition resolve_client ::
  "string \<Rightarrow> 'c process \<Rightarrow> (exception + 'c llm_client) \<times> 'c process" where
  "resolve_client model_uri p =
     (if CHR '':'' \<notin> set model_uri then
        (Inl (Exception ValueError
               [Lit ''model_uri must be in 'provider:model' format (e.g. 'openai:gpt-4o')'']), p)
      else
        (case split_colon_1 model_uri of
           [provider_key, model_name] \<Rightarrow>
             (case map_of (REGISTRY p) provider_key of
                None \<Rightarrow>
                  (Inl (Exception ValueError
                         [Lit (''Unknown provider '' @ [CHR 0x27]), Fmt provider_key,
                          Lit '''. Registered: '', FmtList (map fst (REGISTRY p))]), p)
              | Some cls \<Rightarrow>
                  (init cls model_name,
                   p\<lparr>instantiations := instantiations p @ [(cname cls, model_name)]\<rparr>))
         | _ \<Rightarrow>
             (Inl (Exception ValueError
                    [Lit ''not enough values to unpack (expected 2, got 1)'']), p)))"

text \<open>
  The states the process can be in: the registry starts empty, and only
  \<^verbatim>\<open>register_provider\<close> and \<^verbatim>\<open>resolve_client\<close> act on the state.
\<close>

definition initial :: "'c process" where
  "initial = \<lparr>REGISTRY = [], instantiations = []\<rparr>"

inductive reachable :: "'c process \<Rightarrow> bool" where
  start: "reachable initial"
| register: "reachable p \<Longrightarrow> reachable (snd (register_provider cls p))"
| resolve: "reachable p \<Longrightarrow> reachable (snd (resolve_client model_uri p))"

section \<open>Observing a run\<close>

text \<open>
  \<open>run fn s m\<close> invokes the operation \<open>m\<close> times in a row from the state \<open>s\<close>: the
  outcomes in order, and the state after the last invocation.
\<close>

fun run :: "('s, 'a) operation \<Rightarrow> 's \<Rightarrow> nat \<Rightarrow> (exception + 'a) list \<times> 's" where
  "run fn s 0 = ([], s)"
| "run fn s (Suc m) =
     (fst (fn s) # fst (run fn (snd (fn s)) m), snd (run fn (snd (fn s)) m))"

text \<open>What the wrapper hands to its caller for a last attempt \<open>fut\<close>.\<close>

definition final :: "(exception + 'a \<Rightarrow> bool) \<Rightarrow> exception + 'a \<Rightarrow> 'a retry_outcome" where
  "final retry_cond fut =
     (case fut of
        Inl e \<Rightarrow> Raises e
      | Inr v \<Rightarrow> if retry_cond fut then RaisesRetryError v else Returns v)"

subsection \<open>Operations and classes used as examples\<close>

text \<open>The state of the example operations counts their invocations.\<close>

definition rate_limited :: exception where
  "rate_limited = Exception ProviderRateLimitError [Lit ''429 Too Many Requests'']"

definition unauthorized :: exception where
  "unauthorized = Exception ProviderAuthError [Lit ''401 Unauthorized'']"

definition succeeds_third :: "(nat, string) operation" where
  "succeeds_third calls = (if calls < 2 then Inl rate_limited else Inr ''text'', Suc calls)"

definition rejects_credentials :: "(nat, string) operation" where
  "rejects_credentials calls = (Inl unauthorized, Suc calls)"

definition ok_third :: "(nat, string) operation" where
  "ok_third calls = (Inr (if calls < 2 then ''retry-me'' else ''ok''), Suc calls)"

definition always_limited ::
  "Messages \<Rightarrow> unit GenerateParameters \<Rightarrow> (nat, string) operation" where
  "always_limited msgs params calls = (Inl rate_limited, Suc calls)"

definition hello :: Messages where
  "hello = \<lparr>messages = [\<lparr>role = User, content = ''Hello''\<rparr>]\<rparr>"

definition defaults :: "unit GenerateParameters" where
  "defaults = \<lparr>temperature = Some 0.7, top_p = Some 1.0, max_tokens = None, model_extra = []\<rparr>"

definition OpenAIClient :: "string client_type" where
  "OpenAIClient =
     \<lparr>cname = ''OpenAIClient'', provider = Some ''openai'',
      create_client = (\<lambda>model_name. Inr ''sdk'')\<rparr>"

definition OtherOpenAIClient :: "string client_type" where
  "OtherOpenAIClient =
     \<lparr>cname = ''OtherOpenAIClient'', provider = Some ''openai'',
      create_client = (\<lambda>model_name. Inr ''other sdk'')\<rparr>"

definition KeylessClient :: "string client_type" where
  "KeylessClient =
     \<lparr>cname = ''KeylessClient'', provider = Some ''keyless'',
      create_client = (\<lambda>model_name.
        Inl (Exception (OtherError ''OpenAIError'') [Lit ''The api_key client option must be set'']))\<rparr>"

section \<open>The retry loop\<close>

declare retry_loop.simps [simp del]

lemma retry_loop_done:
  "\<not> (c (fst (fn s)) \<and> k < n) \<Longrightarrow>
   retry_loop c n w fn k s hist sleeps =
     \<lparr>outcome = final c (fst (fn s)), world = snd (fn s),
      history = hist @ [fst (fn s)], slept = sleeps\<rparr>"
  by (cases "fn s"; cases "fst (fn s)")
     (auto simp: retry_loop.simps [of c n w fn k s hist sleeps] final_def stop_after_attempt_def)

lemma retry_loop_again:
  "c (fst (fn s)) \<Longrightarrow> k < n \<Longrightarrow>
   retry_loop c n w fn k s hist sleeps =
     retry_loop c n w fn (k + 1) (snd (fn s)) (hist @ [fst (fn s)]) (sleeps @ [w])"
  by (cases "fn s")
     (simp add: retry_loop.simps [of c n w fn k s hist sleeps] stop_after_attempt_def
        wait_fixed_def)

lemma length_run: "length (fst (run fn s m)) = m"
  by (induction m arbitrary: s) auto

text \<open>
  Every run of the loop is some number \<open>m\<close> of consecutive invocations, at least one and
  at most the attempts left; all but the last satisfied the retry condition, and a last
  one that satisfies it too means the attempts are used up.
\<close>

lemma retry_loop_run:
  "\<exists>m. 1 \<le> m \<and> int m \<le> max 1 (n - k + 1) \<and>
       retry_loop c n w fn k s hist sleeps =
         \<lparr>outcome = final c (last (fst (run fn s m))), world = snd (run fn s m),
          history = hist @ fst (run fn s m), slept = sleeps @ replicate (m - 1) w\<rparr> \<and>
       (\<forall>f \<in> set (butlast (fst (run fn s m))). c f) \<and>
       (c (last (fst (run fn s m))) \<longrightarrow> int m = max 1 (n - k + 1))"
proof (induction c n w fn k s hist sleeps rule: retry_loop.induct)
  case (1 c n w fn k s hist sleeps)
  show ?case
  proof (cases "c (fst (fn s)) \<and> k < n")
    case False
    have "run fn s 1 = ([fst (fn s)], snd (fn s))" by simp
    moreover have "retry_loop c n w fn k s hist sleeps =
        \<lparr>outcome = final c (fst (fn s)), world = snd (fn s),
         history = hist @ [fst (fn s)], slept = sleeps\<rparr>"
      using False by (rule retry_loop_done)
    ultimately show ?thesis using False
      by (intro exI [of _ 1]) auto
  next
    case True
    then have c: "c (fst (fn s))" and kn: "k < n" by auto
    have ns: "\<not> stop_after_attempt n k" using kn by (simp add: stop_after_attempt_def)
    have fs: "(fst (fn s), snd (fn s)) = fn s" by simp
    from "1.IH" [OF fs _ ns] c
    obtain m where m: "1 \<le> m" "int m \<le> max 1 (n - (k + 1) + 1)"
      "retry_loop c n w fn (k + 1) (snd (fn s)) (hist @ [fst (fn s)])
           (sleeps @ [wait_fixed w k]) =
         \<lparr>outcome = final c (last (fst (run fn (snd (fn s)) m))),
          world = snd (run fn (snd (fn s)) m),
          history = (hist @ [fst (fn s)]) @ fst (run fn (snd (fn s)) m),
          slept = (sleeps @ [wait_fixed w k]) @ replicate (m - 1) w\<rparr>"
      "\<forall>f \<in> set (butlast (fst (run fn (snd (fn s)) m))). c f"
      "c (last (fst (run fn (snd (fn s)) m))) \<longrightarrow> int m = max 1 (n - (k + 1) + 1)"
      by auto
    have ne: "fst (run fn (snd (fn s)) m) \<noteq> []"
      using m(1) length_run [of fn "snd (fn s)" m] by auto
    have rep: "[w] @ replicate (m - 1) w = replicate m w"
      using m(1) by (cases m) (simp_all add: replicate_append_same)
    show ?thesis
      apply (rule exI [of _ "Suc m"])
      using m kn c ne rep
      by (auto simp: retry_loop_again wait_fixed_def)
  qed
qed

lemma auth_error_not_rate_limit:
  "exc_class_of e = ProviderAuthError \<Longrightarrow> \<not> isinstance e ProviderRateLimitError"
  by (simp add: isinstance_def)

section \<open>Error-kind retry\<close>

text \<open>
  C2. An operation that raises a rate-limit error on its first and second invocation and
  returns a value on the third: under \<^verbatim>\<open>rate_limit_retry\<close> with \<open>max_attempts = 3\<close> the
  caller gets that value after exactly three invocations (with a wait after each of the
  first two); with \<open>max_attempts = 2\<close> the second rate-limit error is raised after exactly
  two invocations.
\<close>

theorem rate_limit_retry_third_attempt:
  assumes "fn s0 = (Inl e1, s1)" and "isinstance e1 ProviderRateLimitError"
    and "fn s1 = (Inl e2, s2)" and "isinstance e2 ProviderRateLimitError"
    and "fn s2 = (Inr v, s3)"
  shows "rate_limit_retry 3 w fn s0 =
           \<lparr>outcome = Returns v, world = s3,
            history = [Inl e1, Inl e2, Inr v], slept = [w, w]\<rparr> \<and>
         rate_limit_retry 2 w fn s0 =
           \<lparr>outcome = Raises e2, world = s2,
            history = [Inl e1, Inl e2], slept = [w]\<rparr>"
  using assms
  by (simp add: rate_limit_retry_def retry_def retry_loop_again retry_loop_done
      retry_if_exception_type_def final_def)

theorem rate_limit_retry_third_attempt_witness:
  "rate_limit_retry 3 1 succeeds_third 0 =
     \<lparr>outcome = Returns ''text'', world = 3,
      history = [Inl rate_limited, Inl rate_limited, Inr ''text''], slept = [1, 1]\<rparr> \<and>
   rate_limit_retry 2 1 succeeds_third 0 =
     \<lparr>outcome = Raises rate_limited, world = 2,
      history = [Inl rate_limited, Inl rate_limited], slept = [1]\<rparr>"
proof -
  have a: "succeeds_third 0 = (Inl rate_limited, 1)"
    and b: "succeeds_third 1 = (Inl rate_limited, 2)"
    and c: "succeeds_third 2 = (Inr ''text'', 3)"
    by (simp_all add: succeeds_third_def)
  have r: "isinstance rate_limited ProviderRateLimitError"
    by (simp add: isinstance_def rate_limited_def)
  from rate_limit_retry_third_attempt
         [of succeeds_third 0 rate_limited 1 rate_limited 2 "''text''" 3 1] a b c r
  show ?thesis by simp
qed

text \<open>
  C3. An operation whose first invocation raises \<^verbatim>\<open>ProviderAuthError\<close>, or any
  \<^verbatim>\<open>ProviderError\<close> that is not a \<^verbatim>\<open>ProviderRateLimitError\<close>: under
  \<^verbatim>\<open>rate_limit_retry\<close>, whatever the attempt budget, it is invoked exactly once, nothing
  is waited for, and that error is raised to the caller.
\<close>

theorem rate_limit_retry_other_error:
  assumes "fn s = (Inl e, s')"
    and "exc_class_of e = ProviderAuthError \<or>
         (isinstance e ProviderError \<and> \<not> isinstance e ProviderRateLimitError)"
  shows "rate_limit_retry max_attempts w fn s =
           \<lparr>outcome = Raises e, world = s', history = [Inl e], slept = []\<rparr>"
proof -
  have "\<not> isinstance e ProviderRateLimitError"
    using assms(2) auth_error_not_rate_limit by blast
  with assms(1) show ?thesis
    by (simp add: rate_limit_retry_def retry_def retry_loop_done
        retry_if_exception_type_def final_def)
qed

theorem rate_limit_retry_other_error_witness:
  "rate_limit_retry 3 1 rejects_credentials 0 =
     \<lparr>outcome = Raises unauthorized, world = 1, history = [Inl unauthorized], slept = []\<rparr>"
proof -
  have a: "rejects_credentials 0 = (Inl unauthorized, 1)"
    by (simp add: rejects_credentials_def)
  have b: "exc_class_of unauthorized = ProviderAuthError \<or>
         (isinstance unauthorized ProviderError \<and>
          \<not> isinstance unauthorized ProviderRateLimitError)"
    by (simp add: unauthorized_def)
  from rate_limit_retry_other_error [of rejects_credentials 0 unauthorized 1 3 1] a b
  show ?thesis by simp
qed

section \<open>Predicate retry\<close>

text \<open>
  C8. An operation that returns \<^verbatim>\<open>"retry-me"\<close> on its first and second invocation and
  \<^verbatim>\<open>"ok"\<close> on the third, under \<^verbatim>\<open>llm_retry_decorator\<close> with the predicate
  \<^verbatim>\<open>value == "retry-me"\<close> and \<open>max_attempts = 5\<close>: the caller gets \<^verbatim>\<open>"ok"\<close> after
  exactly three invocations. And for any predicate and attempt budget, a first return
  whose value fails the predicate is handed to the caller at once: one invocation, no wait.
\<close>

theorem llm_retry_decorator_accepts:
  "(fn s0 = (Inr ''retry-me'', s1) \<and> fn s1 = (Inr ''retry-me'', s2) \<and>
    fn s2 = (Inr ''ok'', s3) \<longrightarrow>
      llm_retry_decorator (\<lambda>v. v = ''retry-me'') 5 w fn s0 =
        \<lparr>outcome = Returns ''ok'', world = s3,
         history = [Inr ''retry-me'', Inr ''retry-me'', Inr ''ok''], slept = [w, w]\<rparr>) \<and>
   (op t0 = (Inr v, t1) \<and> \<not> predicate v \<longrightarrow>
      llm_retry_decorator predicate max_attempts w op t0 =
        \<lparr>outcome = Returns v, world = t1, history = [Inr v], slept = []\<rparr>)"
  by (simp add: llm_retry_decorator_def retry_def retry_loop_again retry_loop_done
      retry_if_result_def final_def)

theorem llm_retry_decorator_accepts_witness:
  "llm_retry_decorator (\<lambda>v. v = ''retry-me'') 5 1 ok_third 0 =
     \<lparr>outcome = Returns ''ok'', world = 3,
      history = [Inr ''retry-me'', Inr ''retry-me'', Inr ''ok''], slept = [1, 1]\<rparr> \<and>
   llm_retry_decorator (\<lambda>v. v = ''retry-me'') 5 1 ok_third 2 =
     \<lparr>outcome = Returns ''ok'', world = 3, history = [Inr ''ok''], slept = []\<rparr>"
proof -
  have a: "ok_third 0 = (Inr ''retry-me'', 1)"
    and b: "ok_third 1 = (Inr ''retry-me'', 2)"
    and c: "ok_third 2 = (Inr ''ok'', 3)"
    by (simp_all add: ok_third_def)
  from llm_retry_decorator_accepts
         [of ok_third 0 1 2 3 1 ok_third 2 "''ok''" 3 "\<lambda>v. v = ''retry-me''" 5] a b c
  show ?thesis by simp
qed

section \<open>The default policy of the client\<close>

text \<open>
  C7. \<^verbatim>\<open>call_with_retry\<close> runs \<^verbatim>\<open>generate\<close> with the messages and parameters it was
  given, \<open>m\<close> times in a row, where \<open>m\<close> is at least 1 and at most 3; it waits one second
  after each attempt but the last; every attempt before the last raised a rate-limit
  error; it stops before the third attempt only when the last attempt did not raise a
  rate-limit error; and the caller gets exactly what the last attempt produced: its value
  when it returned, its exception when it raised, never another error or value.
\<close>

theorem call_with_retry_policy:
  "let r = call_with_retry generate msgs params s; m = length (history r) in
     1 \<le> m \<and> m \<le> 3 \<and>
     history r = fst (run (generate msgs params) s m) \<and>
     world r = snd (run (generate msgs params) s m) \<and>
     slept r = replicate (m - 1) 1 \<and>
     (\<forall>f \<in> set (butlast (history r)). \<exists>e. f = Inl e \<and> isinstance e ProviderRateLimitError) \<and>
     (m < 3 \<longrightarrow> \<not> (\<exists>e. last (history r) = Inl e \<and> isinstance e ProviderRateLimitError)) \<and>
     outcome r = (case last (history r) of Inl e \<Rightarrow> Raises e | Inr v \<Rightarrow> Returns v)"
proof -
  define c :: "exception + string \<Rightarrow> bool"
    where "c = retry_if_exception_type ProviderRateLimitError"
  define fn where "fn = generate msgs params"
  have cw: "call_with_retry generate msgs params s = retry_loop c 3 1 fn 1 s [] []"
    by (simp add: call_with_retry_def rate_limit_retry_def retry_def c_def fn_def)
  obtain m where m: "1 \<le> m" "int m \<le> max 1 (3 - 1 + 1)"
    and eq: "retry_loop c 3 1 fn 1 s [] [] =
         \<lparr>outcome = final c (last (fst (run fn s m))), world = snd (run fn s m),
          history = [] @ fst (run fn s m), slept = [] @ replicate (m - 1) 1\<rparr>"
    and bl: "\<forall>f \<in> set (butlast (fst (run fn s m))). c f"
    and la: "c (last (fst (run fn s m))) \<longrightarrow> int m = max 1 (3 - 1 + 1)"
    using retry_loop_run [of 3 1 c 1 fn s "[]" "[]"] by blast
  have len: "length (fst (run fn s m)) = m" by (rule length_run)
  have cI: "\<And>f. c f \<longleftrightarrow> (\<exists>e. f = Inl e \<and> isinstance e ProviderRateLimitError)"
    by (auto simp: c_def retry_if_exception_type_def split: sum.splits)
  have m3: "m \<le> 3" using m(2) by simp
  have out: "final c (last (fst (run fn s m))) =
      (case last (fst (run fn s m)) of Inl e \<Rightarrow> Raises e | Inr v \<Rightarrow> Returns v)"
    by (simp add: final_def c_def retry_if_exception_type_def split: sum.splits)
  have stop: "m < 3 \<longrightarrow> \<not> c (last (fst (run fn s m)))"
    using la by auto
  show ?thesis
    unfolding cw eq Let_def
    using m(1) m3 len bl stop out
    by (simp add: cI fn_def)
qed

theorem call_with_retry_policy_witness:
  "call_with_retry always_limited hello defaults 0 =
     \<lparr>outcome = Raises rate_limited, world = 3,
      history = [Inl rate_limited, Inl rate_limited, Inl rate_limited], slept = [1, 1]\<rparr> \<and>
   run (always_limited hello defaults) 0 3 =
     ([Inl rate_limited, Inl rate_limited, Inl rate_limited], 3) \<and>
   isinstance rate_limited ProviderRateLimitError"
proof -
  have r: "isinstance rate_limited ProviderRateLimitError"
    by (simp add: isinstance_def rate_limited_def)
  have f: "\<And>k. always_limited hello defaults k = (Inl rate_limited, Suc k)"
    by (simp add: always_limited_def)
  have ev: "call_with_retry always_limited hello defaults 0 =
     \<lparr>outcome = Raises rate_limited, world = 3,
      history = [Inl rate_limited, Inl rate_limited, Inl rate_limited], slept = [1, 1]\<rparr>"
    using r
    by (simp add: call_with_retry_def rate_limit_retry_def retry_def retry_loop_again
        retry_loop_done retry_if_exception_type_def final_def f numeral_3_eq_3)
  have rn: "run (always_limited hello defaults) 0 3 =
     ([Inl rate_limited, Inl rate_limited, Inl rate_limited], 3)"
    by (simp add: numeral_3_eq_3 f)
  from call_with_retry_policy [of always_limited hello defaults 0] ev rn r
  show ?thesis by simp
qed

section \<open>The registry\<close>

lemma register_provider_cases:
  "register_provider cls p = (r, p') \<Longrightarrow>
     ((\<exists>e. r = Inl e) \<and> p' = p) \<or>
     (\<exists>key. key \<noteq> [] \<and> provider cls = Some key \<and> map_of (REGISTRY p) key = None \<and>
        r = Inr cls \<and> p' = p\<lparr>REGISTRY := AList.update key cls (REGISTRY p)\<rparr>)"
  by (auto simp: register_provider_def split: option.splits if_splits)

lemma REGISTRY_resolve_client [simp]:
  "REGISTRY (snd (resolve_client model_uri p)) = REGISTRY p"
  by (simp add: resolve_client_def split: list.splits option.splits)

lemma reachable_registry:
  "reachable p \<Longrightarrow> [] \<notin> fst ` set (REGISTRY p) \<and> distinct (map fst (REGISTRY p))"
proof (induction rule: reachable.induct)
  case start
  show ?case by (simp add: initial_def)
next
  case (register p cls)
  obtain r p' where rp: "register_provider cls p = (r, p')"
    by (cases "register_provider cls p")
  from register_provider_cases [OF rp] show ?case
  proof (elim disjE conjE exE)
    assume "p' = p"
    with register.IH show ?thesis by (simp add: rp)
  next
    fix key
    assume key: "key \<noteq> []"
      and p': "p' = p\<lparr>REGISTRY := AList.update key cls (REGISTRY p)\<rparr>"
    have "fst ` set (REGISTRY p') = {key} \<union> fst ` set (REGISTRY p)"
      by (simp add: p' AList.dom_update)
    moreover have "distinct (map fst (REGISTRY p'))"
      using register.IH by (simp add: p' AList.distinct_update)
    ultimately show ?thesis using register.IH key by (simp add: rp)
  qed
next
  case (resolve p model_uri)
  then show ?case by simp
qed

text \<open>
  C4. A call of \<^verbatim>\<open>register_provider\<close> keeps the keys of the registry distinct. When
  the key of the class is already in the registry, whatever class holds it (the same class
  included), the call raises and the state is unchanged; when the class has no
  \<^verbatim>\<open>provider\<close> attribute or an empty one, the call raises and the state is unchanged;
  a call that raises never changes the state; and no call changes the class registered
  under a key.
\<close>

theorem register_provider_one_type_per_key:
  "(distinct (map fst (REGISTRY p)) \<longrightarrow>
      distinct (map fst (REGISTRY (snd (register_provider cls p))))) \<and>
   (provider cls = Some key \<and> key \<noteq> [] \<and> map_of (REGISTRY p) key = Some occupant \<longrightarrow>
      register_provider cls p =
        (Inl (Exception ValueError
               [Lit (''Provider '' @ [CHR 0x27]), Fmt key,
                Lit ''' already registered by '', Fmt (cname occupant)]), p)) \<and>
   (provider cls = None \<or> provider cls = Some [] \<longrightarrow>
      register_provider cls p =
        (Inl (Exception ValueError
               [Lit ''Provider client must define 'provider' class attr'']), p)) \<and>
   ((\<exists>e. fst (register_provider cls p) = Inl e) \<longrightarrow> snd (register_provider cls p) = p) \<and>
   (map_of (REGISTRY p) k = Some t \<longrightarrow>
      map_of (REGISTRY (snd (register_provider cls p))) k = Some t)"
proof -
  obtain r p' where rp: "register_provider cls p = (r, p')"
    by (cases "register_provider cls p")
  note cases = register_provider_cases [OF rp]
  have 1: "distinct (map fst (REGISTRY p)) \<longrightarrow>
      distinct (map fst (REGISTRY (snd (register_provider cls p))))"
    using cases by (auto simp: rp AList.distinct_update)
  have 2: "provider cls = Some key \<and> key \<noteq> [] \<and> map_of (REGISTRY p) key = Some occupant \<longrightarrow>
      register_provider cls p =
        (Inl (Exception ValueError
               [Lit (''Provider '' @ [CHR 0x27]), Fmt key,
                Lit ''' already registered by '', Fmt (cname occupant)]), p)"
    by (simp add: register_provider_def)
  have 3: "provider cls = None \<or> provider cls = Some [] \<longrightarrow>
      register_provider cls p =
        (Inl (Exception ValueError
               [Lit ''Provider client must define 'provider' class attr'']), p)"
    by (auto simp: register_provider_def)
  have 4: "(\<exists>e. fst (register_provider cls p) = Inl e) \<longrightarrow> snd (register_provider cls p) = p"
    using cases by (auto simp: rp)
  have 5: "map_of (REGISTRY p) k = Some t \<longrightarrow>
      map_of (REGISTRY (snd (register_provider cls p))) k = Some t"
    using cases by (auto simp: rp AList.update_conv')
  from 1 2 3 4 5 show ?thesis by blast
qed

theorem register_provider_one_type_per_key_witness:
  "register_provider OpenAIClient initial =
     (Inr OpenAIClient, \<lparr>REGISTRY = [(''openai'', OpenAIClient)], instantiations = []\<rparr>) \<and>
   register_provider OtherOpenAIClient
       \<lparr>REGISTRY = [(''openai'', OpenAIClient)], instantiations = []\<rparr> =
     (Inl (Exception ValueError
            [Lit (''Provider '' @ [CHR 0x27]), Fmt ''openai'',
             Lit ''' already registered by '', Fmt ''OpenAIClient'']),
      \<lparr>REGISTRY = [(''openai'', OpenAIClient)], instantiations = []\<rparr>) \<and>
   register_provider OpenAIClient
       \<lparr>REGISTRY = [(''openai'', OpenAIClient)], instantiations = []\<rparr> =
     (Inl (Exception ValueError
            [Lit (''Provider '' @ [CHR 0x27]), Fmt ''openai'',
             Lit ''' already registered by '', Fmt ''OpenAIClient'']),
      \<lparr>REGISTRY = [(''openai'', OpenAIClient)], instantiations = []\<rparr>)"
proof -
  let ?p = "\<lparr>REGISTRY = [(''openai'', OpenAIClient)], instantiations = []\<rparr> :: string process"
  have a: "provider OpenAIClient = Some ''openai''" "cname OpenAIClient = ''OpenAIClient''"
    by (simp_all add: OpenAIClient_def)
  have b: "provider OtherOpenAIClient = Some ''openai''"
    by (simp add: OtherOpenAIClient_def)
  have first: "register_provider OpenAIClient initial = (Inr OpenAIClient, ?p)"
    by (simp add: register_provider_def initial_def a)
  from register_provider_one_type_per_key
         [of ?p OtherOpenAIClient "''openai''" OpenAIClient "''openai''" OpenAIClient]
       register_provider_one_type_per_key
         [of ?p OpenAIClient "''openai''" OpenAIClient "''openai''" OpenAIClient]
       first a b
  show ?thesis by simp
qed

section \<open>The factory\<close>

lemma split_colon_1_first:
  "CHR '':'' \<notin> set key \<Longrightarrow> split_colon_1 (key @ CHR '':'' # rest) = [key, rest]"
  by (induction key) (auto simp: split_colon_1_def)

lemma first_colon:
  "CHR '':'' \<in> set model_uri \<Longrightarrow>
   \<exists>key rest. model_uri = key @ CHR '':'' # rest \<and> CHR '':'' \<notin> set key"
  using split_list_first [of "CHR '':''" model_uri] by blast

lemma resolve_client_lookup:
  "CHR '':'' \<notin> set key \<Longrightarrow>
   resolve_client (key @ CHR '':'' # rest) p =
     (case map_of (REGISTRY p) key of
        None \<Rightarrow>
          (Inl (Exception ValueError
                 [Lit (''Unknown provider '' @ [CHR 0x27]), Fmt key,
                  Lit '''. Registered: '', FmtList (map fst (REGISTRY p))]), p)
      | Some cls \<Rightarrow>
          (init cls rest, p\<lparr>instantiations := instantiations p @ [(cname cls, rest)]\<rparr>))"
  by (simp add: resolve_client_def split_colon_1_first)

text \<open>
  C1, as the code has it. For a model URI \<open>key:rest\<close>, where \<open>key\<close> has no colon and is
  a registered provider key (\<open>rest\<close> may have colons): when the \<^verbatim>\<open>_create_client\<close> of
  the registered class returns, \<^verbatim>\<open>resolve_client\<close> returns an instance of that class
  whose stored model is \<open>rest\<close>; when it raises, \<^verbatim>\<open>resolve_client\<close> raises that
  exception.
\<close>

theorem resolve_client_registered:
  assumes "CHR '':'' \<notin> set key" and "map_of (REGISTRY p) key = Some cls"
  shows "(create_client cls rest = Inr sdk \<longrightarrow>
            fst (resolve_client (key @ CHR '':'' # rest) p) =
              Inr \<lparr>model = rest, client = sdk, class_of = cls\<rparr>) \<and>
         (create_client cls rest = Inl e \<longrightarrow>
            fst (resolve_client (key @ CHR '':'' # rest) p) = Inl e)"
  using assms by (simp add: resolve_client_lookup init_def)

theorem resolve_client_registered_witness:
  "fst (resolve_client ''openai:org/gpt-4o:v2''
         \<lparr>REGISTRY = [(''openai'', OpenAIClient)], instantiations = []\<rparr>) =
     Inr \<lparr>model = ''org/gpt-4o:v2'', client = ''sdk'', class_of = OpenAIClient\<rparr>"
proof -
  let ?p = "\<lparr>REGISTRY = [(''openai'', OpenAIClient)], instantiations = []\<rparr> :: string process"
  have a: "CHR '':'' \<notin> set ''openai''" by simp
  have b: "map_of (REGISTRY ?p) ''openai'' = Some OpenAIClient" by simp
  have c: "create_client OpenAIClient ''org/gpt-4o:v2'' = Inr ''sdk''"
    by (simp add: OpenAIClient_def)
  from resolve_client_registered
         [of "''openai''" ?p OpenAIClient "''org/gpt-4o:v2''" "''sdk''", OF a b] c
  show ?thesis by simp
qed

text \<open>
  The claim as stated fails where the constructor of the registered class raises: the
  URI has a colon and its provider key is registered, and no instance is returned.
\<close>

theorem resolve_client_registered_counterexample:
  "CHR '':'' \<in> set ''keyless:gpt-4o'' \<and>
   map_of (REGISTRY (snd (register_provider KeylessClient initial))) ''keyless'' =
     Some KeylessClient \<and>
   fst (resolve_client ''keyless:gpt-4o'' (snd (register_provider KeylessClient initial))) =
     Inl (Exception (OtherError ''OpenAIError'')
           [Lit ''The api_key client option must be set''])"
proof -
  let ?p = "\<lparr>REGISTRY = [(''keyless'', KeylessClient)], instantiations = []\<rparr> :: string process"
  have reg: "snd (register_provider KeylessClient initial) = ?p"
    by (simp add: register_provider_def initial_def KeylessClient_def)
  have a: "CHR '':'' \<notin> set ''keyless''" by simp
  have "create_client KeylessClient ''gpt-4o'' =
      Inl (Exception (OtherError ''OpenAIError'') [Lit ''The api_key client option must be set''])"
    by (simp add: KeylessClient_def)
  with resolve_client_lookup [OF a, of "''gpt-4o''" ?p]
  have "fst (resolve_client ''keyless:gpt-4o'' ?p) =
     Inl (Exception (OtherError ''OpenAIError'')
           [Lit ''The api_key client option must be set''])"
    by (simp add: init_def)
  then show ?thesis by (simp add: reg)
qed

text \<open>
  C5. For a model URI without a colon, \<^verbatim>\<open>resolve_client\<close> raises the
  \<^verbatim>\<open>ValueError\<close> whose message names the \<^verbatim>\<open>provider:model\<close> shape, whatever the
  registry holds, and leaves the state as it was: the registry is the same and no
  constructor call was made.
\<close>

theorem resolve_client_no_colon:
  assumes "CHR '':'' \<notin> set model_uri"
  shows "resolve_client model_uri p =
           (Inl (Exception ValueError
                  [Lit ''model_uri must be in 'provider:model' format (e.g. 'openai:gpt-4o')'']),
            p) \<and>
         sublist ''provider:model''
           ''model_uri must be in 'provider:model' format (e.g. 'openai:gpt-4o')''"
proof -
  have "''model_uri must be in 'provider:model' format (e.g. 'openai:gpt-4o')'' =
        (''model_uri must be in '' @ [CHR 0x27]) @ ''provider:model'' @
          ''' format (e.g. 'openai:gpt-4o')''"
    by simp
  then have "sublist ''provider:model''
      ''model_uri must be in 'provider:model' format (e.g. 'openai:gpt-4o')''"
    unfolding sublist_def by blast
  with assms show ?thesis by (simp add: resolve_client_def)
qed

theorem resolve_client_no_colon_witness:
  "resolve_client ''no-colon-here''
     \<lparr>REGISTRY = [(''openai'', OpenAIClient)], instantiations = []\<rparr> =
   (Inl (Exception ValueError
          [Lit ''model_uri must be in 'provider:model' format (e.g. 'openai:gpt-4o')'']),
    \<lparr>REGISTRY = [(''openai'', OpenAIClient)], instantiations = []\<rparr>)"
proof -
  have a: "CHR '':'' \<notin> set ''no-colon-here''" by simp
  from resolve_client_no_colon [OF a] show ?thesis by blast
qed

text \<open>
  C6. For a model URI \<open>key:rest\<close> whose \<open>key\<close> (without a colon) is not in the registry,
  \<^verbatim>\<open>resolve_client\<close> raises the \<^verbatim>\<open>ValueError\<close> whose message holds the key and the
  list of the registry's keys, all of them and in the registry's order, and leaves the
  state as it was: no constructor call was made.
\<close>

theorem resolve_client_unknown_provider:
  assumes "CHR '':'' \<notin> set key" and "key \<notin> fst ` set (REGISTRY p)"
  shows "resolve_client (key @ CHR '':'' # rest) p =
           (Inl (Exception ValueError
                  [Lit (''Unknown provider '' @ [CHR 0x27]), Fmt key,
                   Lit '''. Registered: '', FmtList (map fst (REGISTRY p))]), p) \<and>
         set (map fst (REGISTRY p)) = dom (map_of (REGISTRY p))"
proof -
  have "map_of (REGISTRY p) key = None"
    using assms(2) by (simp add: map_of_eq_None_iff)
  with assms(1) show ?thesis
    by (simp add: resolve_client_lookup dom_map_of_conv_image_fst)
qed

theorem resolve_client_unknown_provider_witness:
  "resolve_client ''unknownprov:x''
     \<lparr>REGISTRY = [(''openai'', OpenAIClient)], instantiations = []\<rparr> =
   (Inl (Exception ValueError
          [Lit (''Unknown provider '' @ [CHR 0x27]), Fmt ''unknownprov'',
           Lit '''. Registered: '', FmtList [''openai'']]),
    \<lparr>REGISTRY = [(''openai'', OpenAIClient)], instantiations = []\<rparr>)"
proof -
  let ?p = "\<lparr>REGISTRY = [(''openai'', OpenAIClient)], instantiations = []\<rparr> :: string process"
  have a: "CHR '':'' \<notin> set ''unknownprov''" by simp
  have b: "''unknownprov'' \<notin> fst ` set (REGISTRY ?p)" by simp
  from resolve_client_unknown_provider [of "''unknownprov''" ?p "''x''", OF a b]
  show ?thesis by simp
qed

text \<open>
  C10. In every state the process can reach, the empty string is not a key of the
  registry, so a model URI that starts with a colon passes the format check and raises
  the unknown-provider \<^verbatim>\<open>ValueError\<close>, for the empty key.
\<close>

theorem resolve_client_empty_key:
  assumes "reachable p"
  shows "[] \<notin> fst ` set (REGISTRY p) \<and>
         resolve_client (CHR '':'' # rest) p =
           (Inl (Exception ValueError
                  [Lit (''Unknown provider '' @ [CHR 0x27]), Fmt [],
                   Lit '''. Registered: '', FmtList (map fst (REGISTRY p))]), p)"
proof -
  have k: "[] \<notin> fst ` set (REGISTRY p)"
    using assms by (simp add: reachable_registry)
  then have n: "map_of (REGISTRY p) [] = None"
    by (simp add: map_of_eq_None_iff)
  have "CHR '':'' \<notin> set ([] :: string)" by simp
  from resolve_client_lookup [OF this, of rest p] n
  have "resolve_client (CHR '':'' # rest) p =
           (Inl (Exception ValueError
                  [Lit (''Unknown provider '' @ [CHR 0x27]), Fmt [],
                   Lit '''. Registered: '', FmtList (map fst (REGISTRY p))]), p)"
    by simp
  with k show ?thesis by simp
qed

theorem resolve_client_empty_key_witness:
  "resolve_client '':gpt-4'' (snd (register_provider OpenAIClient initial)) =
   (Inl (Exception ValueError
          [Lit (''Unknown provider '' @ [CHR 0x27]), Fmt [],
           Lit '''. Registered: '', FmtList [''openai'']]),
    \<lparr>REGISTRY = [(''openai'', OpenAIClient)], instantiations = []\<rparr>)"
proof -
  have r: "reachable (snd (register_provider OpenAIClient (initial :: string process)))"
    by (intro reachable.intros)
  have reg: "snd (register_provider OpenAIClient initial) =
      \<lparr>REGISTRY = [(''openai'', OpenAIClient)], instantiations = []\<rparr>"
    by (simp add: register_provider_def initial_def OpenAIClient_def)
  from resolve_client_empty_key [OF r, of "''gpt-4''"] show ?thesis
    by (simp add: reg)
qed

section \<open>Generation parameters\<close>

lemma field_accepts:
  "(\<exists>x. field dflt constraints arg = Some x) \<longleftrightarrow> (\<forall>v. arg = Value v \<longrightarrow> constraints v)"
  by (cases arg) (simp_all add: field_def)

lemma field_stores:
  "field dflt constraints (Value v) = Some x \<Longrightarrow> x = Some v"
  by (simp add: field_def split: if_splits)

text \<open>
  C9. Constructing \<^verbatim>\<open>GenerateParameters\<close> succeeds exactly when every option that is
  given a value has it in range: \<open>temperature\<close> in \<open>[0, 2]\<close>, \<open>top_p\<close> in \<open>[0, 1]\<close>,
  \<open>max_tokens\<close> above 256 and at most 16384. On success the values given are the values
  stored, and the extra fields are stored as they were given, whatever they are.
\<close>

theorem GenerateParameters_init_bounds:
  "((\<exists>r. GenerateParameters_init temperature_arg top_p_arg max_tokens_arg extra = Inr r) \<longleftrightarrow>
      (\<forall>t. temperature_arg = Value t \<longrightarrow> 0 \<le> t \<and> t \<le> 2) \<and>
      (\<forall>q. top_p_arg = Value q \<longrightarrow> 0 \<le> q \<and> q \<le> 1) \<and>
      (\<forall>n. max_tokens_arg = Value n \<longrightarrow> 256 < n \<and> n \<le> 16384)) \<and>
   (GenerateParameters_init temperature_arg top_p_arg max_tokens_arg extra = Inr r \<longrightarrow>
      model_extra r = extra \<and>
      (\<forall>t. temperature_arg = Value t \<longrightarrow> temperature r = Some t) \<and>
      (\<forall>q. top_p_arg = Value q \<longrightarrow> top_p r = Some q) \<and>
      (\<forall>n. max_tokens_arg = Value n \<longrightarrow> max_tokens r = Some n))"
proof -
  have t: "(\<exists>x. temperature_field temperature_arg = Some x) \<longleftrightarrow>
      (\<forall>t. temperature_arg = Value t \<longrightarrow> 0 \<le> t \<and> t \<le> 2)"
    unfolding temperature_field_def field_accepts by simp
  have q: "(\<exists>x. top_p_field top_p_arg = Some x) \<longleftrightarrow>
      (\<forall>q. top_p_arg = Value q \<longrightarrow> 0 \<le> q \<and> q \<le> 1)"
    unfolding top_p_field_def field_accepts by simp
  have n: "(\<exists>x. max_tokens_field max_tokens_arg = Some x) \<longleftrightarrow>
      (\<forall>n. max_tokens_arg = Value n \<longrightarrow> 256 < n \<and> n \<le> 16384)"
    unfolding max_tokens_field_def field_accepts by simp
  have ok: "(\<exists>r. GenerateParameters_init temperature_arg top_p_arg max_tokens_arg extra = Inr r) \<longleftrightarrow>
      (\<exists>x. temperature_field temperature_arg = Some x) \<and>
      (\<exists>x. top_p_field top_p_arg = Some x) \<and>
      (\<exists>x. max_tokens_field max_tokens_arg = Some x)"
    by (auto simp: GenerateParameters_init_def split: option.splits)
  have stored: "GenerateParameters_init temperature_arg top_p_arg max_tokens_arg extra = Inr r \<longrightarrow>
      model_extra r = extra \<and>
      temperature_field temperature_arg = Some (temperature r) \<and>
      top_p_field top_p_arg = Some (top_p r) \<and>
      max_tokens_field max_tokens_arg = Some (max_tokens r)"
    by (auto simp: GenerateParameters_init_def split: option.splits)
  have st: "\<And>x v. temperature_field (Value v) = Some x \<Longrightarrow> x = Some v"
    unfolding temperature_field_def by (rule field_stores)
  have sq: "\<And>x v. top_p_field (Value v) = Some x \<Longrightarrow> x = Some v"
    unfolding top_p_field_def by (rule field_stores)
  have sn: "\<And>x v. max_tokens_field (Value v) = Some x \<Longrightarrow> x = Some v"
    unfolding max_tokens_field_def by (rule field_stores)
  from stored st sq sn
  have B: "GenerateParameters_init temperature_arg top_p_arg max_tokens_arg extra = Inr r \<longrightarrow>
      model_extra r = extra \<and>
      (\<forall>t. temperature_arg = Value t \<longrightarrow> temperature r = Some t) \<and>
      (\<forall>q. top_p_arg = Value q \<longrightarrow> top_p r = Some q) \<and>
      (\<forall>n. max_tokens_arg = Value n \<longrightarrow> max_tokens r = Some n)"
    by (metis (no_types))
  have A: "(\<exists>r. GenerateParameters_init temperature_arg top_p_arg max_tokens_arg extra = Inr r) \<longleftrightarrow>
      (\<forall>t. temperature_arg = Value t \<longrightarrow> 0 \<le> t \<and> t \<le> 2) \<and>
      (\<forall>q. top_p_arg = Value q \<longrightarrow> 0 \<le> q \<and> q \<le> 1) \<and>
      (\<forall>n. max_tokens_arg = Value n \<longrightarrow> 256 < n \<and> n \<le> 16384)"
    unfolding ok t q n ..
  from A B show ?thesis by (rule conjI)
qed

theorem GenerateParameters_init_bounds_witness:
  "GenerateParameters_init (Value 2) (Value 0) (Value 16384) [(''seed'', 7 :: int)] =
     Inr \<lparr>temperature = Some 2, top_p = Some 0, max_tokens = Some 16384,
          model_extra = [(''seed'', 7)]\<rparr> \<and>
   GenerateParameters_init Omitted Omitted (Value 256) [(''seed'', 7 :: int)] =
     Inl (ValidationError [''max_tokens'']) \<and>
   GenerateParameters_init (Value 2.5) (Value 1.5) (Value 16385) [(''seed'', 7 :: int)] =
     Inl (ValidationError [''temperature'', ''top_p'', ''max_tokens''])"
proof -
  have a: "GenerateParameters_init (Value 2) (Value 0) (Value 16384) [(''seed'', 7 :: int)] =
     Inr \<lparr>temperature = Some 2, top_p = Some 0, max_tokens = Some 16384,
          model_extra = [(''seed'', 7)]\<rparr>"
    by (simp add: GenerateParameters_init_def temperature_field_def top_p_field_def
        max_tokens_field_def field_def)
  have b: "GenerateParameters_init Omitted Omitted (Value 256) [(''seed'', 7 :: int)] =
     Inl (ValidationError [''max_tokens''])"
    by (simp add: GenerateParameters_init_def temperature_field_def top_p_field_def
        max_tokens_field_def field_def)
  have c: "GenerateParameters_init (Value 2.5) (Value 1.5) (Value 16385) [(''seed'', 7 :: int)] =
     Inl (ValidationError [''temperature'', ''top_p'', ''max_tokens''])"
    by (simp add: GenerateParameters_init_def temperature_field_def top_p_field_def
        max_tokens_field_def field_def)
  from GenerateParameters_init_bounds
         [of "Value 2" "Value 0" "Value 16384" "[(''seed'', 7 :: int)]"
             "\<lparr>temperature = Some 2, top_p = Some 0, max_tokens = Some 16384,
               model_extra = [(''seed'', 7 :: int)]\<rparr>"] a b c
  show ?thesis by simp
qed

end
